theory Spec2Isabelle
  imports Complex_Main "HOL-Library.AList" "HOL-Library.Multiset"
begin

section \<open>Multi-currency wallet: the in-memory store and the ledger operations\<close>

text \<open>
  The development embeds \<^verbatim>\<open>server/storage.ts\<close> (class \<^verbatim>\<open>MemStorage\<close>) and the three
  ledger handlers of \<^verbatim>\<open>server/routes.ts\<close> (\<^verbatim>\<open>POST /api/transfers\<close>,
  \<^verbatim>\<open>POST /api/conversions\<close>, \<^verbatim>\<open>POST /api/deposits\<close>), together with the request
  schemas of \<^verbatim>\<open>shared/schema.ts\<close> that these handlers apply.

  Conventions of the embedding.
  \<^item> A JavaScript \<^verbatim>\<open>number\<close> holding an amount, a balance or a rate is an exact
    rational (\<^typ>\<open>rat\<close>); the data model calls these signed decimals. The rounding
    of IEEE doubles, and the values NaN and Infinity, are outside the model.
  \<^item> Identifiers and timestamps (\<^verbatim>\<open>Date.getTime()\<close>, milliseconds) are integers.
  \<^item> A JavaScript \<^verbatim>\<open>Map\<close> is an association list in insertion order:
    \<^verbatim>\<open>get\<close> is \<^const>\<open>map_of\<close>, \<^verbatim>\<open>set\<close> is \<^const>\<open>AList.update\<close> (an existing
    key keeps its position, a new key goes to the end), \<^verbatim>\<open>values()\<close> is
    \<^term>\<open>map snd\<close>.
  \<^item> The store is passed explicitly; every handler returns its response together with
    the store it leaves behind, so that an early \<^verbatim>\<open>return res.status(...)\<close> is a
    branch that hands the store back as it was.
  \<^item> \<^verbatim>\<open>new Date()\<close> is an argument \<open>now\<close>; the authenticated \<^verbatim>\<open>req.user.id\<close> is
    an argument \<open>uid\<close>.
\<close>

subsection \<open>Data model (\<^verbatim>\<open>shared/schema.ts\<close>)\<close>

text \<open>
  Wallet currencies are the codes of \<^verbatim>\<open>availableCurrencies\<close>: the wallet-creation
  handler rejects every other code, and registration creates a \<^verbatim>\<open>'USD'\<close> wallet.
\<close>

datatype currency = USD | EUR | GBP | JPY | CAD | AUD | CHF

definition availableCurrencies :: "currency list" where
  "availableCurrencies = [USD, EUR, GBP, JPY, CAD, AUD, CHF]"

fun code :: "currency \<Rightarrow> string" where
  "code USD = ''USD''"
| "code EUR = ''EUR''"
| "code GBP = ''GBP''"
| "code JPY = ''JPY''"
| "code CAD = ''CAD''"
| "code AUD = ''AUD''"
| "code CHF = ''CHF''"

record wallet =
  w_id :: int
  w_userId :: int
  w_name :: "string option"
  w_currency :: currency
  w_balance :: rat
  w_isPrimary :: bool
  w_createdAt :: int

record insertWallet =
  iw_userId :: int
  iw_name :: "string option"
  iw_currency :: currency
  iw_balance :: "rat option"
  iw_isPrimary :: bool

record insertTransaction =
  t_userId :: int
  t_fromWalletId :: "int option"
  t_toWalletId :: "int option"
  t_type :: string
  t_amount :: rat
  t_fromCurrency :: "currency option"
  t_toCurrency :: "currency option"
  t_rate :: "rat option"
  t_description :: string
  t_status :: string

record transaction = insertTransaction +
  t_id :: int
  t_createdAt :: int

text \<open>
  The request schemas: each field is a \<^verbatim>\<open>z.number()\<close>, which the argument types
  already say; what remains is \<^verbatim>\<open>amount: z.number().positive(...)\<close>.
\<close>

definition transferFundsSchema :: "rat \<Rightarrow> bool" where
  "transferFundsSchema amount \<longleftrightarrow> 0 < amount"

definition convertCurrencySchema :: "rat \<Rightarrow> bool" where
  "convertCurrencySchema amount \<longleftrightarrow> 0 < amount"

definition addFundsSchema :: "rat \<Rightarrow> bool" where
  "addFundsSchema amount \<longleftrightarrow> 0 < amount"

subsection \<open>The store (\<^verbatim>\<open>MemStorage\<close>)\<close>

text \<open>
  The \<^verbatim>\<open>users\<close> map and its counter take no part in any ledger operation and are
  left out.
\<close>

record storage =
  wallets :: "(int \<times> wallet) list"
  transactions :: "(int \<times> transaction) list"
  walletId :: int
  transactionId :: int

definition MemStorage :: storage where
  "MemStorage = \<lparr>wallets = [], transactions = [], walletId = 1, transactionId = 1\<rparr>"

definition getWallets :: "storage \<Rightarrow> int \<Rightarrow> wallet list" where
  "getWallets s userId = filter (\<lambda>wallet. w_userId wallet = userId) (map snd (wallets s))"

definition getWallet :: "storage \<Rightarrow> int \<Rightarrow> wallet option" where
  "getWallet s i = map_of (wallets s) i"

text \<open>
  \<^verbatim>\<open>balance: walletData.balance ? walletData.balance : 0\<close>: an absent balance and
  the balance 0 both give 0.
\<close>

definition createWallet :: "storage \<Rightarrow> insertWallet \<Rightarrow> int \<Rightarrow> wallet \<times> storage" where
  "createWallet s walletData now =
     (let i = walletId s;
          wallet = \<lparr>w_id = i, w_userId = iw_userId walletData, w_name = iw_name walletData,
                    w_currency = iw_currency walletData,
                    w_balance = (case iw_balance walletData of None \<Rightarrow> 0 | Some b \<Rightarrow> b),
                    w_isPrimary = iw_isPrimary walletData, w_createdAt = now\<rparr>
      in (wallet, s\<lparr>walletId := i + 1, wallets := AList.update i wallet (wallets s)\<rparr>))"

definition updateWalletBalance :: "storage \<Rightarrow> int \<Rightarrow> rat \<Rightarrow> wallet option \<times> storage" where
  "updateWalletBalance s i balance =
     (case map_of (wallets s) i of
        None \<Rightarrow> (None, s)
      | Some wallet \<Rightarrow>
          (let updatedWallet = wallet\<lparr>w_balance := balance\<rparr>
           in (Some updatedWallet, s\<lparr>wallets := AList.update i updatedWallet (wallets s)\<rparr>)))"

text \<open>
  \<^verbatim>\<open>xs.slice(0, limit)\<close> for an integer \<open>limit\<close>: a negative end counts from the
  end of the array and is clamped at 0; an end beyond the length stops at the length.
\<close>

definition slice0 :: "'a list \<Rightarrow> int \<Rightarrow> 'a list" where
  "slice0 xs limit =
     (if limit < 0 then take (nat (max (int (length xs) + limit) 0)) xs
      else take (nat limit) xs)"

text \<open>
  \<^verbatim>\<open>.sort((a, b) => b.createdAt.getTime() - a.createdAt.getTime())\<close>: a stable sort,
  larger timestamps first.
\<close>

definition sortByCreatedAtDesc :: "transaction list \<Rightarrow> transaction list" where
  "sortByCreatedAtDesc ts = sort_key (\<lambda>t. - t_createdAt t) ts"

text \<open>
  The optional \<open>limit\<close> is \<open>None\<close> when the argument is absent. The test
  \<^verbatim>\<open>limit ? ... : ...\<close> is on the truthiness of the number, so 0 takes the same
  branch as an absent limit.
\<close>

definition getTransactions :: "storage \<Rightarrow> int \<Rightarrow> int option \<Rightarrow> transaction list" where
  "getTransactions s userId limit =
     (let userTransactions =
            sortByCreatedAtDesc
              (filter (\<lambda>transaction. t_userId transaction = userId) (map snd (transactions s)))
      in case limit of
           None \<Rightarrow> userTransactions
         | Some l \<Rightarrow> if l \<noteq> 0 then slice0 userTransactions l else userTransactions)"

definition getWalletTransactions :: "storage \<Rightarrow> int \<Rightarrow> int option \<Rightarrow> transaction list" where
  "getWalletTransactions s walletId' limit =
     (let walletTransactions =
            sortByCreatedAtDesc
              (filter (\<lambda>transaction. t_fromWalletId transaction = Some walletId' \<or>
                                      t_toWalletId transaction = Some walletId')
                 (map snd (transactions s)))
      in case limit of
           None \<Rightarrow> walletTransactions
         | Some l \<Rightarrow> if l \<noteq> 0 then slice0 walletTransactions l else walletTransactions)"

definition createTransaction ::
  "storage \<Rightarrow> insertTransaction \<Rightarrow> int \<Rightarrow> transaction \<times> storage" where
  "createTransaction s transactionData now =
     (let i = transactionId s;
          transaction = insertTransaction.extend transactionData (transaction.fields i now)
      in (transaction,
          s\<lparr>transactionId := i + 1,
            transactions := AList.update i transaction (transactions s)\<rparr>))"

subsection \<open>The rate table and the handlers (\<^verbatim>\<open>server/routes.ts\<close>)\<close>

definition exchangeRates :: "(currency \<times> (currency \<times> rat) list) list" where
  "exchangeRates =
     [(USD, [(EUR, 0.915), (GBP, 0.79), (USD, 1)]),
      (EUR, [(USD, 1.093), (GBP, 0.863), (EUR, 1)]),
      (GBP, [(USD, 1.266), (EUR, 1.159), (GBP, 1)])]"

text \<open>\<^verbatim>\<open>exchangeRates[from]?.[to]\<close>: \<open>None\<close> stands for \<^verbatim>\<open>undefined\<close>.\<close>

definition lookupRate :: "currency \<Rightarrow> currency \<Rightarrow> rat option" where
  "lookupRate from to =
     (case map_of exchangeRates from of None \<Rightarrow> None | Some row \<Rightarrow> map_of row to)"

text \<open>
  The failure responses, by kind. \<open>ValidationError\<close> is status 400 with message
  \<^verbatim>\<open>Validation error\<close>; \<open>NotFound\<close> is 404; \<open>Forbidden\<close> is 403;
  \<open>InvalidOperation\<close> is 400 with \<^verbatim>\<open>Cannot transfer between different currencies.
  Use conversion instead.\<close> (transfers) or \<^verbatim>\<open>Exchange rate not available for this
  pair\<close> (conversions); \<open>InsufficientFunds\<close> is 400 with
  \<^verbatim>\<open>Insufficient funds in source wallet\<close>.
\<close>

datatype error = ValidationError | NotFound | Forbidden | InvalidOperation | InsufficientFunds

fun status :: "error \<Rightarrow> nat" where
  "status ValidationError = 400"
| "status NotFound = 404"
| "status Forbidden = 403"
| "status InvalidOperation = 400"
| "status InsufficientFunds = 400"

text \<open>The bodies of the 201 responses.\<close>

record transferResponse =
  tr_transaction :: transaction
  tr_fromWallet :: "wallet option"
  tr_toWallet :: "wallet option"

record conversionResponse =
  cr_transaction :: transaction
  cr_fromWallet :: "wallet option"
  cr_toWallet :: "wallet option"
  cr_rate :: rat
  cr_convertedAmount :: rat

record depositResponse =
  dr_transaction :: transaction
  dr_wallet :: "wallet option"

text \<open>\<^verbatim>\<open>description || 'Transfer between wallets'\<close>: absent and empty give the default.\<close>

definition descriptionOr :: "string option \<Rightarrow> string \<Rightarrow> string" where
  "descriptionOr description dflt =
     (case description of None \<Rightarrow> dflt | Some d \<Rightarrow> if d = [] then dflt else d)"

definition post_api_transfers ::
  "storage \<Rightarrow> int \<Rightarrow> int \<Rightarrow> int \<Rightarrow> rat \<Rightarrow> string option \<Rightarrow> int
     \<Rightarrow> (error + transferResponse) \<times> storage" where
  "post_api_transfers s uid fromWalletId toWalletId amount description now =
     (if \<not> transferFundsSchema amount then (Inl ValidationError, s)
      else case getWallet s fromWalletId of
        None \<Rightarrow> (Inl NotFound, s)
      | Some fromWallet \<Rightarrow>
         (case getWallet s toWalletId of
            None \<Rightarrow> (Inl NotFound, s)
          | Some toWallet \<Rightarrow>
              if w_userId fromWallet \<noteq> uid \<or> w_userId toWallet \<noteq> uid
              then (Inl Forbidden, s)
              else if w_currency fromWallet \<noteq> w_currency toWallet
              then (Inl InvalidOperation, s)
              else if w_balance fromWallet < amount then (Inl InsufficientFunds, s)
              else
                (let fromBalance = w_balance fromWallet - amount;
                     toBalance = w_balance toWallet + amount;
                     s1 = snd (updateWalletBalance s fromWalletId fromBalance);
                     s2 = snd (updateWalletBalance s1 toWalletId toBalance);
                     transaction =
                       \<lparr>t_userId = uid, t_fromWalletId = Some fromWalletId,
                        t_toWalletId = Some toWalletId, t_type = ''transfer'',
                        t_amount = amount,
                        t_fromCurrency = Some (w_currency fromWallet),
                        t_toCurrency = Some (w_currency toWallet), t_rate = None,
                        t_description = descriptionOr description ''Transfer between wallets'',
                        t_status = ''completed''\<rparr>;
                     (newTransaction, s3) = createTransaction s2 transaction now
                 in (Inr \<lparr>tr_transaction = newTransaction,
                          tr_fromWallet = getWallet s3 fromWalletId,
                          tr_toWallet = getWallet s3 toWalletId\<rparr>, s3))))"

text \<open>
  \<^verbatim>\<open>if (!rate)\<close> rejects an absent rate and a rate of 0 alike.
\<close>

definition post_api_conversions ::
  "storage \<Rightarrow> int \<Rightarrow> int \<Rightarrow> int \<Rightarrow> rat \<Rightarrow> int
     \<Rightarrow> (error + conversionResponse) \<times> storage" where
  "post_api_conversions s uid fromWalletId toWalletId amount now =
     (if \<not> convertCurrencySchema amount then (Inl ValidationError, s)
      else case getWallet s fromWalletId of
        None \<Rightarrow> (Inl NotFound, s)
      | Some fromWallet \<Rightarrow>
         (case getWallet s toWalletId of
            None \<Rightarrow> (Inl NotFound, s)
          | Some toWallet \<Rightarrow>
              if w_userId fromWallet \<noteq> uid \<or> w_userId toWallet \<noteq> uid
              then (Inl Forbidden, s)
              else if w_balance fromWallet < amount then (Inl InsufficientFunds, s)
              else
                (case lookupRate (w_currency fromWallet) (w_currency toWallet) of
                   None \<Rightarrow> (Inl InvalidOperation, s)
                 | Some rate \<Rightarrow>
                     if rate = 0 then (Inl InvalidOperation, s)
                     else
                       (let convertedAmount = amount * rate;
                            fromBalance = w_balance fromWallet - amount;
                            toBalance = w_balance toWallet + convertedAmount;
                            s1 = snd (updateWalletBalance s fromWalletId fromBalance);
                            s2 = snd (updateWalletBalance s1 toWalletId toBalance);
                            transaction =
                              \<lparr>t_userId = uid, t_fromWalletId = Some fromWalletId,
                               t_toWalletId = Some toWalletId, t_type = ''conversion'',
                               t_amount = amount,
                               t_fromCurrency = Some (w_currency fromWallet),
                               t_toCurrency = Some (w_currency toWallet),
                               t_rate = Some rate,
                               t_description =
                                 ''Converted '' @ code (w_currency fromWallet) @ '' to ''
                                   @ code (w_currency toWallet),
                               t_status = ''completed''\<rparr>;
                            (newTransaction, s3) = createTransaction s2 transaction now
                        in (Inr \<lparr>cr_transaction = newTransaction,
                                 cr_fromWallet = getWallet s3 fromWalletId,
                                 cr_toWallet = getWallet s3 toWalletId,
                                 cr_rate = rate,
                                 cr_convertedAmount = convertedAmount\<rparr>, s3)))))"

definition post_api_deposits ::
  "storage \<Rightarrow> int \<Rightarrow> int \<Rightarrow> rat \<Rightarrow> int \<Rightarrow> (error + depositResponse) \<times> storage" where
  "post_api_deposits s uid walletId' amount now =
     (if \<not> addFundsSchema amount then (Inl ValidationError, s)
      else case getWallet s walletId' of
        None \<Rightarrow> (Inl NotFound, s)
      | Some wallet \<Rightarrow>
          if w_userId wallet \<noteq> uid then (Inl Forbidden, s)
          else
            (let newBalance = w_balance wallet + amount;
                 s1 = snd (updateWalletBalance s walletId' newBalance);
                 transaction =
                   \<lparr>t_userId = uid, t_fromWalletId = None, t_toWalletId = Some walletId',
                    t_type = ''deposit'', t_amount = amount, t_fromCurrency = None,
                    t_toCurrency = Some (w_currency wallet), t_rate = None,
                    t_description = ''Added funds to wallet'', t_status = ''completed''\<rparr>;
                 (newTransaction, s2) = createTransaction s1 transaction now
             in (Inr \<lparr>dr_transaction = newTransaction,
                      dr_wallet = getWallet s2 walletId'\<rparr>, s2)))"

subsection \<open>Predicates for stating the properties\<close>

text \<open>No stored wallet has a negative balance.\<close>

definition balancesNonNegative :: "storage \<Rightarrow> bool" where
  "balancesNonNegative s \<longleftrightarrow> list_all (\<lambda>(i, wallet). 0 \<le> w_balance wallet) (wallets s)"

text \<open>
  Every key of the transaction map lies below the counter \<^verbatim>\<open>this.transactionId\<close>, so
  the next \<^verbatim>\<open>set\<close> adds an entry and replaces none. The constructor establishes this
  and \<open>createTransaction\<close>, the only writer, keeps it.
\<close>

definition transactionIdFresh :: "storage \<Rightarrow> bool" where
  "transactionIdFresh s \<longleftrightarrow> list_all (\<lambda>(i, t). i < transactionId s) (transactions s)"

text \<open>Two wallet records agree on every field other than the balance.\<close>

definition sameButBalance :: "wallet \<Rightarrow> wallet \<Rightarrow> bool" where
  "sameButBalance w w' \<longleftrightarrow>
     w_id w' = w_id w \<and> w_userId w' = w_userId w \<and> w_name w' = w_name w \<and>
     w_currency w' = w_currency w \<and> w_isPrimary w' = w_isPrimary w \<and>
     w_createdAt w' = w_createdAt w"

text \<open>
  The wallet maps of two stores correspond entry by entry: the same identifiers in the
  same order, each wallet differing from its earlier self in the balance at most.
\<close>

definition onlyBalancesDiffer :: "storage \<Rightarrow> storage \<Rightarrow> bool" where
  "onlyBalancesDiffer s s' \<longleftrightarrow>
     list_all2 (\<lambda>(i, w) (i', w'). i' = i \<and> sameButBalance w w') (wallets s) (wallets s')"

text \<open>A listing runs from the latest creation time to the earliest.\<close>

definition createdAtDescending :: "transaction list \<Rightarrow> bool" where
  "createdAtDescending ts \<longleftrightarrow> sorted_wrt (\<lambda>a b. t_createdAt b \<le> t_createdAt a) ts"

text \<open>
  The stores the server passes through: the store of the constructor, and what wallet
  creation (both callers pass \<^verbatim>\<open>balance: 0\<close>) and the three ledger handlers make
  of such a store.
\<close>

inductive reachable :: "storage \<Rightarrow> bool" where
  constructed: "reachable MemStorage"
| wallet_created:
    "reachable s \<Longrightarrow> iw_balance walletData = Some 0 \<Longrightarrow>
     reachable (snd (createWallet s walletData now))"
| transferred: "reachable s \<Longrightarrow> reachable (snd (post_api_transfers s uid f t a d now))"
| converted: "reachable s \<Longrightarrow> reachable (snd (post_api_conversions s uid f t a now))"
| deposited: "reachable s \<Longrightarrow> reachable (snd (post_api_deposits s uid i a now))"

subsection \<open>Example stores\<close>

text \<open>
  Account 1 holds two USD wallets (balances 50 and 0) and a EUR wallet; account 2
  holds a USD wallet. No ledger entry has been written yet.
\<close>

definition exampleStore :: storage where
  "exampleStore =
     \<lparr>wallets =
        [(1, \<lparr>w_id = 1, w_userId = 1, w_name = Some ''Primary'', w_currency = USD,
              w_balance = 50, w_isPrimary = True, w_createdAt = 1000\<rparr>),
         (2, \<lparr>w_id = 2, w_userId = 1, w_name = Some ''Savings'', w_currency = USD,
              w_balance = 0, w_isPrimary = False, w_createdAt = 2000\<rparr>),
         (3, \<lparr>w_id = 3, w_userId = 1, w_name = Some ''EUR'', w_currency = EUR,
              w_balance = 0, w_isPrimary = False, w_createdAt = 3000\<rparr>),
         (4, \<lparr>w_id = 4, w_userId = 2, w_name = Some ''Primary'', w_currency = USD,
              w_balance = 5, w_isPrimary = True, w_createdAt = 4000\<rparr>),
         (5, \<lparr>w_id = 5, w_userId = 1, w_name = Some ''JPY'', w_currency = JPY,
              w_balance = 0, w_isPrimary = False, w_createdAt = 5000\<rparr>)],
      transactions = [], walletId = 6, transactionId = 1\<rparr>"

text \<open>Account 1 with a USD wallet holding 10 and a second, empty USD wallet.\<close>

definition smallStore :: storage where
  "smallStore =
     \<lparr>wallets =
        [(1, \<lparr>w_id = 1, w_userId = 1, w_name = Some ''Primary'', w_currency = USD,
              w_balance = 10, w_isPrimary = True, w_createdAt = 1000\<rparr>),
         (2, \<lparr>w_id = 2, w_userId = 1, w_name = Some ''Savings'', w_currency = USD,
              w_balance = 0, w_isPrimary = False, w_createdAt = 2000\<rparr>)],
      transactions = [], walletId = 3, transactionId = 1\<rparr>"

text \<open>Account 1 with a USD wallet holding 250 and a EUR wallet holding 10.\<close>

definition conversionStore :: storage where
  "conversionStore =
     \<lparr>wallets =
        [(1, \<lparr>w_id = 1, w_userId = 1, w_name = Some ''Primary'', w_currency = USD,
              w_balance = 250, w_isPrimary = True, w_createdAt = 1000\<rparr>),
         (2, \<lparr>w_id = 2, w_userId = 1, w_name = Some ''EUR'', w_currency = EUR,
              w_balance = 10, w_isPrimary = False, w_createdAt = 2000\<rparr>)],
      transactions = [], walletId = 3, transactionId = 1\<rparr>"

text \<open>A deposit entry of account \<open>u\<close> with identifier \<open>i\<close>, written at time \<open>c\<close>.\<close>

definition depositEntry :: "int \<Rightarrow> int \<Rightarrow> int \<Rightarrow> transaction" where
  "depositEntry i u c =
     \<lparr>t_userId = u, t_fromWalletId = None, t_toWalletId = Some 1, t_type = ''deposit'',
      t_amount = 50, t_fromCurrency = None, t_toCurrency = Some USD, t_rate = None,
      t_description = ''Added funds to wallet'', t_status = ''completed'',
      t_id = i, t_createdAt = c\<rparr>"

text \<open>A ledger of three entries of account 1 and one of account 2.\<close>

definition exampleLedger :: storage where
  "exampleLedger =
     \<lparr>wallets = [],
      transactions =
        [(1, depositEntry 1 1 1000), (2, depositEntry 2 2 2000),
         (3, depositEntry 3 1 3000), (4, depositEntry 4 1 4000)],
      walletId = 1, transactionId = 5\<rparr>"

section \<open>Properties\<close>

subsection \<open>Association lists as maps\<close>

lemma update_fresh_append:
  "k \<notin> fst ` set al \<Longrightarrow> AList.update k v al = al @ [(k, v)]"
  by (induction al) auto

lemma set_update_subset: "set (AList.update k v al) \<subseteq> insert (k, v) (set al)"
  by (induction al) auto

lemma list_all_update:
  "list_all P al \<Longrightarrow> P (k, v) \<Longrightarrow> list_all P (AList.update k v al)"
  using set_update_subset [of k v al] by (auto simp: list_all_iff)

lemma list_all2_update:
  "map_of al k = Some w \<Longrightarrow> R w w' \<Longrightarrow> (\<And>x. R x x) \<Longrightarrow>
   list_all2 (\<lambda>(i, w) (i', w'). i' = i \<and> R w w') al (AList.update k w' al)"
proof (induction al)
  case Nil
  then show ?case by simp
next
  case (Cons p al)
  have refl: "list_all2 (\<lambda>(i, w) (i', w'). i' = i \<and> R w w') al al"
    using Cons.prems(3) by (simp add: list_all2_same split_def)
  show ?case
  proof (cases "fst p = k")
    case True
    with Cons.prems refl show ?thesis by (cases p) auto
  next
    case False
    with Cons show ?thesis by (cases p) (auto split: if_splits)
  qed
qed

lemma map_of_list_all2:
  "list_all2 (\<lambda>(i, w) (i', w'). i' = i \<and> R w w') al al' \<Longrightarrow>
   rel_option R (map_of al k) (map_of al' k)"
  by (induction al al' rule: list_all2_induct) auto

subsection \<open>The store operations\<close>

lemma getWallet_updateWalletBalance:
  "getWallet (snd (updateWalletBalance s i b)) j =
     (if j = i then map_option (\<lambda>w. w\<lparr>w_balance := b\<rparr>) (getWallet s i) else getWallet s j)"
  by (simp add: getWallet_def updateWalletBalance_def Let_def update_conv' split: option.splits)

lemma updateWalletBalance_other:
  "transactions (snd (updateWalletBalance s i b)) = transactions s"
  "transactionId (snd (updateWalletBalance s i b)) = transactionId s"
  "walletId (snd (updateWalletBalance s i b)) = walletId s"
  by (simp_all add: updateWalletBalance_def Let_def split: option.splits)

lemma updateWalletBalance_nonneg:
  "balancesNonNegative s \<Longrightarrow> 0 \<le> b \<Longrightarrow> balancesNonNegative (snd (updateWalletBalance s i b))"
  by (auto simp: balancesNonNegative_def updateWalletBalance_def Let_def
      intro: list_all_update split: option.splits)

lemma sameButBalance_refl: "sameButBalance w w"
  by (simp add: sameButBalance_def)

lemma sameButBalance_trans:
  "sameButBalance a b \<Longrightarrow> sameButBalance b c \<Longrightarrow> sameButBalance a c"
  by (simp add: sameButBalance_def)

lemma onlyBalancesDiffer_refl: "onlyBalancesDiffer s s"
  by (simp add: onlyBalancesDiffer_def list_all2_same split_def sameButBalance_refl)

lemma onlyBalancesDiffer_trans:
  "onlyBalancesDiffer a b \<Longrightarrow> onlyBalancesDiffer b c \<Longrightarrow> onlyBalancesDiffer a c"
  unfolding onlyBalancesDiffer_def
  by (erule (1) list_all2_trans [rotated]) (auto intro: sameButBalance_trans)

lemma updateWalletBalance_frame: "onlyBalancesDiffer s (snd (updateWalletBalance s i b))"
proof (cases "map_of (wallets s) i")
  case None
  then show ?thesis by (simp add: updateWalletBalance_def onlyBalancesDiffer_refl)
next
  case (Some w)
  have "list_all2 (\<lambda>(i, w) (i', w'). i' = i \<and> sameButBalance w w') (wallets s)
          (AList.update i (w\<lparr>w_balance := b\<rparr>) (wallets s))"
    by (rule list_all2_update [OF Some]) (simp_all add: sameButBalance_def)
  with Some show ?thesis
    by (simp add: updateWalletBalance_def onlyBalancesDiffer_def Let_def)
qed

lemma onlyBalancesDiffer_getWallet:
  "onlyBalancesDiffer s s' \<Longrightarrow> rel_option sameButBalance (getWallet s i) (getWallet s' i)"
  unfolding onlyBalancesDiffer_def getWallet_def by (rule map_of_list_all2)

lemma createTransaction_wallets:
  "wallets (snd (createTransaction s td now)) = wallets s"
  "walletId (snd (createTransaction s td now)) = walletId s"
  by (simp_all add: createTransaction_def Let_def)

lemma getWallet_createTransaction:
  "getWallet (snd (createTransaction s td now)) j = getWallet s j"
  by (simp add: getWallet_def createTransaction_wallets)

lemma createTransaction_entry:
  "fst (createTransaction s td now) =
     insertTransaction.extend td (transaction.fields (transactionId s) now)"
  by (simp add: createTransaction_def Let_def)

lemma createTransaction_transactions:
  "transactions (snd (createTransaction s td now)) =
     AList.update (transactionId s) (fst (createTransaction s td now)) (transactions s)"
  "transactionId (snd (createTransaction s td now)) = transactionId s + 1"
  by (simp_all add: createTransaction_def Let_def)

lemma createTransaction_append:
  assumes "transactionIdFresh s"
  shows "transactions (snd (createTransaction s td now)) =
     transactions s @ [(transactionId s, fst (createTransaction s td now))]"
proof -
  have "transactionId s \<notin> fst ` set (transactions s)"
    using assms by (auto simp: transactionIdFresh_def list_all_iff)
  then show ?thesis
    by (simp add: createTransaction_transactions update_fresh_append)
qed

lemma createTransaction_fresh:
  assumes "transactionIdFresh s"
  shows "transactionIdFresh (snd (createTransaction s td now))"
proof -
  have "list_all (\<lambda>(i, t). i < transactionId s + 1) (transactions s)"
    using assms by (auto simp: transactionIdFresh_def list_all_iff)
  then have "list_all (\<lambda>(i, t). i < transactionId s + 1)
      (AList.update (transactionId s) (fst (createTransaction s td now)) (transactions s))"
    by (rule list_all_update) simp
  then show ?thesis
    by (simp add: transactionIdFresh_def createTransaction_transactions)
qed

lemma MemStorage_invariants:
  "balancesNonNegative MemStorage" "transactionIdFresh MemStorage"
  by (simp_all add: MemStorage_def balancesNonNegative_def transactionIdFresh_def)

subsection \<open>The handlers, branch by branch\<close>

lemma lookupRate_table:
  "lookupRate from to \<noteq> None \<longleftrightarrow> from \<in> {USD, EUR, GBP} \<and> to \<in> {USD, EUR, GBP}"
  by (cases "from"; cases to) (simp_all add: lookupRate_def exchangeRates_def)

lemma lookupRate_positive: "lookupRate from to = Some rate \<Longrightarrow> 0 < rate"
  by (cases "from"; cases to) (auto simp: lookupRate_def exchangeRates_def)

lemma lookupRate_identity: "from \<in> {USD, EUR, GBP} \<Longrightarrow> lookupRate from from = Some 1"
  by (auto simp: lookupRate_def exchangeRates_def)

lemma getWallet_nonneg:
  "balancesNonNegative s \<Longrightarrow> getWallet s i = Some w \<Longrightarrow> 0 \<le> w_balance w"
  by (auto simp: balancesNonNegative_def getWallet_def list_all_iff dest: map_of_SomeD)

lemma transfer_ok:
  assumes "0 < a" "getWallet s f = Some fw" "getWallet s t = Some tw"
    "w_userId fw = uid" "w_userId tw = uid" "w_currency fw = w_currency tw"
    "a \<le> w_balance fw"
  shows "post_api_transfers s uid f t a d now =
     (let s2 = snd (updateWalletBalance (snd (updateWalletBalance s f (w_balance fw - a))) t
                  (w_balance tw + a));
          p = createTransaction s2
                \<lparr>t_userId = uid, t_fromWalletId = Some f, t_toWalletId = Some t,
                 t_type = ''transfer'', t_amount = a,
                 t_fromCurrency = Some (w_currency fw), t_toCurrency = Some (w_currency tw),
                 t_rate = None, t_description = descriptionOr d ''Transfer between wallets'',
                 t_status = ''completed''\<rparr> now
      in (Inr \<lparr>tr_transaction = fst p, tr_fromWallet = getWallet (snd p) f,
               tr_toWallet = getWallet (snd p) t\<rparr>, snd p))"
  using assms
  by (simp add: post_api_transfers_def transferFundsSchema_def Let_def split_def)

lemma transfer_Inr:
  assumes "post_api_transfers s uid f t a d now = (Inr r, s')"
  obtains fw tw where "0 < a" "getWallet s f = Some fw" "getWallet s t = Some tw"
    "w_userId fw = uid" "w_userId tw = uid" "w_currency fw = w_currency tw"
    "a \<le> w_balance fw"
  using assms
  by (auto simp: post_api_transfers_def transferFundsSchema_def
      split: if_splits option.splits)

lemma transfer_Inl:
  "post_api_transfers s uid f t a d now = (Inl e, s') \<Longrightarrow> s' = s"
  by (auto simp: post_api_transfers_def Let_def split_def split: if_splits option.splits)

lemma conversion_ok:
  assumes "0 < a" "getWallet s f = Some fw" "getWallet s t = Some tw"
    "w_userId fw = uid" "w_userId tw = uid" "a \<le> w_balance fw"
    "lookupRate (w_currency fw) (w_currency tw) = Some rate"
  shows "post_api_conversions s uid f t a now =
     (let s2 = snd (updateWalletBalance (snd (updateWalletBalance s f (w_balance fw - a))) t
                  (w_balance tw + a * rate));
          p = createTransaction s2
                \<lparr>t_userId = uid, t_fromWalletId = Some f, t_toWalletId = Some t,
                 t_type = ''conversion'', t_amount = a,
                 t_fromCurrency = Some (w_currency fw), t_toCurrency = Some (w_currency tw),
                 t_rate = Some rate,
                 t_description =
                   ''Converted '' @ code (w_currency fw) @ '' to '' @ code (w_currency tw),
                 t_status = ''completed''\<rparr> now
      in (Inr \<lparr>cr_transaction = fst p, cr_fromWallet = getWallet (snd p) f,
               cr_toWallet = getWallet (snd p) t, cr_rate = rate,
               cr_convertedAmount = a * rate\<rparr>, snd p))"
  using assms lookupRate_positive [OF assms(7)]
  by (simp add: post_api_conversions_def convertCurrencySchema_def Let_def split_def)

lemma conversion_Inr:
  assumes "post_api_conversions s uid f t a now = (Inr r, s')"
  obtains fw tw rate where "0 < a" "getWallet s f = Some fw" "getWallet s t = Some tw"
    "w_userId fw = uid" "w_userId tw = uid" "a \<le> w_balance fw"
    "lookupRate (w_currency fw) (w_currency tw) = Some rate"
  using assms
  by (auto simp: post_api_conversions_def convertCurrencySchema_def
      split: if_splits option.splits)

lemma conversion_Inl:
  "post_api_conversions s uid f t a now = (Inl e, s') \<Longrightarrow> s' = s"
  by (auto simp: post_api_conversions_def Let_def split_def split: if_splits option.splits)

lemma deposit_ok:
  assumes "0 < a" "getWallet s i = Some w" "w_userId w = uid"
  shows "post_api_deposits s uid i a now =
     (let s1 = snd (updateWalletBalance s i (w_balance w + a));
          p = createTransaction s1
                \<lparr>t_userId = uid, t_fromWalletId = None, t_toWalletId = Some i,
                 t_type = ''deposit'', t_amount = a, t_fromCurrency = None,
                 t_toCurrency = Some (w_currency w), t_rate = None,
                 t_description = ''Added funds to wallet'', t_status = ''completed''\<rparr> now
      in (Inr \<lparr>dr_transaction = fst p, dr_wallet = getWallet (snd p) i\<rparr>, snd p))"
  using assms
  by (simp add: post_api_deposits_def addFundsSchema_def Let_def split_def)

lemma deposit_Inr:
  assumes "post_api_deposits s uid i a now = (Inr r, s')"
  obtains w where "0 < a" "getWallet s i = Some w" "w_userId w = uid"
  using assms
  by (auto simp: post_api_deposits_def addFundsSchema_def split: if_splits option.splits)

lemma deposit_Inl:
  "post_api_deposits s uid i a now = (Inl e, s') \<Longrightarrow> s' = s"
  by (auto simp: post_api_deposits_def Let_def split_def split: if_splits option.splits)

text \<open>The definitions unfolded to run a handler on a concrete store.\<close>

lemmas eval_defs = post_api_transfers_def post_api_conversions_def post_api_deposits_def
  transferFundsSchema_def convertCurrencySchema_def addFundsSchema_def
  getWallet_def updateWalletBalance_def createTransaction_def Let_def descriptionOr_def
  lookupRate_def exchangeRates_def exampleStore_def smallStore_def conversionStore_def
  insertTransaction.defs transaction.defs balancesNonNegative_def transactionIdFresh_def

subsection \<open>Balances after a transfer\<close>

lemma transfer_balances:
  assumes "post_api_transfers s uid f t a d now = (Inr r, s')"
    "getWallet s f = Some fw" "getWallet s t = Some tw"
  shows "getWallet s' j =
     (if j = t then Some (tw\<lparr>w_balance := w_balance tw + a\<rparr>)
      else if j = f then Some (fw\<lparr>w_balance := w_balance fw - a\<rparr>)
      else getWallet s j)"
proof -
  have c: "0 < a" "w_userId fw = uid" "w_userId tw = uid" "w_currency fw = w_currency tw"
    "a \<le> w_balance fw"
    by (rule transfer_Inr [OF assms(1)], use assms(2,3) in simp)+
  have "s' = snd (post_api_transfers s uid f t a d now)"
    by (simp add: assms(1))
  also have "getWallet \<dots> j =
     (if j = t then Some (tw\<lparr>w_balance := w_balance tw + a\<rparr>)
      else if j = f then Some (fw\<lparr>w_balance := w_balance fw - a\<rparr>)
      else getWallet s j)"
    unfolding transfer_ok [OF c(1) assms(2,3) c(2-5)]
    by (simp add: Let_def getWallet_createTransaction getWallet_updateWalletBalance assms(2,3))
  finally show ?thesis .
qed

lemma transfer_conservation_distinct:
  assumes "post_api_transfers s uid f t a d now = (Inr r, s')" "f \<noteq> t"
  shows "\<exists>fw tw fw' tw'.
      getWallet s f = Some fw \<and> getWallet s t = Some tw \<and>
      getWallet s' f = Some fw' \<and> getWallet s' t = Some tw' \<and>
      w_balance fw' = w_balance fw - a \<and> w_balance tw' = w_balance tw + a \<and>
      w_balance fw' + w_balance tw' = w_balance fw + w_balance tw"
proof -
  from assms(1) obtain fw tw where c: "getWallet s f = Some fw" "getWallet s t = Some tw"
    by (rule transfer_Inr)
  show ?thesis
    using assms(2) c transfer_balances [OF assms(1) c] by simp
qed

subsection \<open>Non-negative balances are kept\<close>

lemma transfer_nonneg:
  assumes "balancesNonNegative s"
  shows "balancesNonNegative (snd (post_api_transfers s uid f t a d now))"
proof (cases "fst (post_api_transfers s uid f t a d now)")
  case (Inl e)
  then have "post_api_transfers s uid f t a d now = (Inl e, snd (post_api_transfers s uid f t a d now))"
    by (simp add: prod_eq_iff)
  from transfer_Inl [OF this] assms show ?thesis by simp
next
  case (Inr r)
  then have "post_api_transfers s uid f t a d now = (Inr r, snd (post_api_transfers s uid f t a d now))"
    by (simp add: prod_eq_iff)
  then obtain fw tw where c: "0 < a" "getWallet s f = Some fw"
    "getWallet s t = Some tw" "w_userId fw = uid" "w_userId tw = uid"
    "w_currency fw = w_currency tw" "a \<le> w_balance fw"
    by (rule transfer_Inr)
  have "0 \<le> w_balance tw" using assms c(3) by (rule getWallet_nonneg)
  with c(1,7) assms show ?thesis
    by (simp add: transfer_ok [OF c] Let_def balancesNonNegative_def createTransaction_wallets
        updateWalletBalance_nonneg [unfolded balancesNonNegative_def])
qed

lemma conversion_nonneg:
  assumes "balancesNonNegative s"
  shows "balancesNonNegative (snd (post_api_conversions s uid f t a now))"
proof (cases "fst (post_api_conversions s uid f t a now)")
  case (Inl e)
  then have "post_api_conversions s uid f t a now = (Inl e, snd (post_api_conversions s uid f t a now))"
    by (simp add: prod_eq_iff)
  from conversion_Inl [OF this] assms show ?thesis by simp
next
  case (Inr r)
  then have "post_api_conversions s uid f t a now = (Inr r, snd (post_api_conversions s uid f t a now))"
    by (simp add: prod_eq_iff)
  then obtain fw tw rate where c: "0 < a" "getWallet s f = Some fw"
    "getWallet s t = Some tw" "w_userId fw = uid" "w_userId tw = uid"
    "a \<le> w_balance fw" "lookupRate (w_currency fw) (w_currency tw) = Some rate"
    by (rule conversion_Inr)
  have "0 \<le> w_balance tw" using assms c(3) by (rule getWallet_nonneg)
  moreover have "0 < a * rate" using c(1) lookupRate_positive [OF c(7)] by simp
  ultimately show ?thesis using c(6) assms
    by (simp add: conversion_ok [OF c] Let_def balancesNonNegative_def createTransaction_wallets
        updateWalletBalance_nonneg [unfolded balancesNonNegative_def])
qed

lemma deposit_nonneg:
  assumes "balancesNonNegative s"
  shows "balancesNonNegative (snd (post_api_deposits s uid i a now))"
proof (cases "fst (post_api_deposits s uid i a now)")
  case (Inl e)
  then have "post_api_deposits s uid i a now = (Inl e, snd (post_api_deposits s uid i a now))"
    by (simp add: prod_eq_iff)
  from deposit_Inl [OF this] assms show ?thesis by simp
next
  case (Inr r)
  then have "post_api_deposits s uid i a now = (Inr r, snd (post_api_deposits s uid i a now))"
    by (simp add: prod_eq_iff)
  then obtain w where c: "0 < a" "getWallet s i = Some w" "w_userId w = uid"
    by (rule deposit_Inr)
  have "0 \<le> w_balance w" using assms c(2) by (rule getWallet_nonneg)
  with c(1) assms show ?thesis
    by (simp add: deposit_ok [OF c] Let_def balancesNonNegative_def createTransaction_wallets
        updateWalletBalance_nonneg [unfolded balancesNonNegative_def])
qed

subsection \<open>The ledger entry a handler writes\<close>

lemma transfer_ledger:
  assumes "post_api_transfers s uid f t a d now = (Inr r, s')"
  shows "transactions s' =
           AList.update (transactionId s) (tr_transaction r) (transactions s)"
    and "transactionId s' = transactionId s + 1"
    and "\<exists>fw tw. getWallet s f = Some fw \<and> getWallet s t = Some tw \<and>
           w_currency fw = w_currency tw \<and>
           tr_transaction r =
             \<lparr>t_userId = uid, t_fromWalletId = Some f, t_toWalletId = Some t,
              t_type = ''transfer'', t_amount = a,
              t_fromCurrency = Some (w_currency fw), t_toCurrency = Some (w_currency tw),
              t_rate = None, t_description = descriptionOr d ''Transfer between wallets'',
              t_status = ''completed'', t_id = transactionId s, t_createdAt = now\<rparr>"
proof -
  from assms obtain fw tw where c: "0 < a" "getWallet s f = Some fw"
    "getWallet s t = Some tw" "w_userId fw = uid" "w_userId tw = uid"
    "w_currency fw = w_currency tw" "a \<le> w_balance fw"
    by (rule transfer_Inr)
  from assms have r: "r = projr (fst (post_api_transfers s uid f t a d now))"
    and s': "s' = snd (post_api_transfers s uid f t a d now)" by simp_all
  show "transactions s' =
           AList.update (transactionId s) (tr_transaction r) (transactions s)"
    unfolding r s' transfer_ok [OF c]
    by (simp add: Let_def createTransaction_transactions updateWalletBalance_other)
  show "transactionId s' = transactionId s + 1"
    unfolding s' transfer_ok [OF c]
    by (simp add: Let_def createTransaction_transactions updateWalletBalance_other)
  have "tr_transaction r =
             \<lparr>t_userId = uid, t_fromWalletId = Some f, t_toWalletId = Some t,
              t_type = ''transfer'', t_amount = a,
              t_fromCurrency = Some (w_currency fw), t_toCurrency = Some (w_currency tw),
              t_rate = None, t_description = descriptionOr d ''Transfer between wallets'',
              t_status = ''completed'', t_id = transactionId s, t_createdAt = now\<rparr>"
    unfolding r transfer_ok [OF c]
    by (simp add: Let_def createTransaction_entry updateWalletBalance_other
        insertTransaction.defs transaction.defs)
  with c show "\<exists>fw tw. getWallet s f = Some fw \<and> getWallet s t = Some tw \<and>
           w_currency fw = w_currency tw \<and>
           tr_transaction r =
             \<lparr>t_userId = uid, t_fromWalletId = Some f, t_toWalletId = Some t,
              t_type = ''transfer'', t_amount = a,
              t_fromCurrency = Some (w_currency fw), t_toCurrency = Some (w_currency tw),
              t_rate = None, t_description = descriptionOr d ''Transfer between wallets'',
              t_status = ''completed'', t_id = transactionId s, t_createdAt = now\<rparr>"
    by blast
qed

lemma conversion_ledger:
  assumes "post_api_conversions s uid f t a now = (Inr r, s')"
  shows "transactions s' =
           AList.update (transactionId s) (cr_transaction r) (transactions s)"
    and "transactionId s' = transactionId s + 1"
    and "\<exists>fw tw rate. getWallet s f = Some fw \<and> getWallet s t = Some tw \<and>
           lookupRate (w_currency fw) (w_currency tw) = Some rate \<and>
           cr_rate r = rate \<and> cr_convertedAmount r = a * rate \<and>
           cr_transaction r =
             \<lparr>t_userId = uid, t_fromWalletId = Some f, t_toWalletId = Some t,
              t_type = ''conversion'', t_amount = a,
              t_fromCurrency = Some (w_currency fw), t_toCurrency = Some (w_currency tw),
              t_rate = Some rate,
              t_description =
                ''Converted '' @ code (w_currency fw) @ '' to '' @ code (w_currency tw),
              t_status = ''completed'', t_id = transactionId s, t_createdAt = now\<rparr>"
proof -
  from assms obtain fw tw rate where c: "0 < a" "getWallet s f = Some fw"
    "getWallet s t = Some tw" "w_userId fw = uid" "w_userId tw = uid"
    "a \<le> w_balance fw" "lookupRate (w_currency fw) (w_currency tw) = Some rate"
    by (rule conversion_Inr)
  from assms have r: "r = projr (fst (post_api_conversions s uid f t a now))"
    and s': "s' = snd (post_api_conversions s uid f t a now)" by simp_all
  show "transactions s' =
           AList.update (transactionId s) (cr_transaction r) (transactions s)"
    unfolding r s' conversion_ok [OF c]
    by (simp add: Let_def createTransaction_transactions updateWalletBalance_other)
  show "transactionId s' = transactionId s + 1"
    unfolding s' conversion_ok [OF c]
    by (simp add: Let_def createTransaction_transactions updateWalletBalance_other)
  have "cr_rate r = rate \<and> cr_convertedAmount r = a * rate \<and>
        cr_transaction r =
             \<lparr>t_userId = uid, t_fromWalletId = Some f, t_toWalletId = Some t,
              t_type = ''conversion'', t_amount = a,
              t_fromCurrency = Some (w_currency fw), t_toCurrency = Some (w_currency tw),
              t_rate = Some rate,
              t_description =
                ''Converted '' @ code (w_currency fw) @ '' to '' @ code (w_currency tw),
              t_status = ''completed'', t_id = transactionId s, t_createdAt = now\<rparr>"
    unfolding r conversion_ok [OF c]
    by (simp add: Let_def createTransaction_entry updateWalletBalance_other
        insertTransaction.defs transaction.defs)
  with c show "\<exists>fw tw rate. getWallet s f = Some fw \<and> getWallet s t = Some tw \<and>
           lookupRate (w_currency fw) (w_currency tw) = Some rate \<and>
           cr_rate r = rate \<and> cr_convertedAmount r = a * rate \<and>
           cr_transaction r =
             \<lparr>t_userId = uid, t_fromWalletId = Some f, t_toWalletId = Some t,
              t_type = ''conversion'', t_amount = a,
              t_fromCurrency = Some (w_currency fw), t_toCurrency = Some (w_currency tw),
              t_rate = Some rate,
              t_description =
                ''Converted '' @ code (w_currency fw) @ '' to '' @ code (w_currency tw),
              t_status = ''completed'', t_id = transactionId s, t_createdAt = now\<rparr>"
    by blast
qed

lemma deposit_ledger:
  assumes "post_api_deposits s uid i a now = (Inr r, s')"
  shows "transactions s' =
           AList.update (transactionId s) (dr_transaction r) (transactions s)"
    and "transactionId s' = transactionId s + 1"
    and "\<exists>w. getWallet s i = Some w \<and>
           getWallet s' i = Some (w\<lparr>w_balance := w_balance w + a\<rparr>) \<and>
           dr_wallet r = Some (w\<lparr>w_balance := w_balance w + a\<rparr>) \<and>
           dr_transaction r =
             \<lparr>t_userId = uid, t_fromWalletId = None, t_toWalletId = Some i,
              t_type = ''deposit'', t_amount = a, t_fromCurrency = None,
              t_toCurrency = Some (w_currency w), t_rate = None,
              t_description = ''Added funds to wallet'', t_status = ''completed'',
              t_id = transactionId s, t_createdAt = now\<rparr>"
proof -
  from assms obtain w where c: "0 < a" "getWallet s i = Some w" "w_userId w = uid"
    by (rule deposit_Inr)
  from assms have r: "r = projr (fst (post_api_deposits s uid i a now))"
    and s': "s' = snd (post_api_deposits s uid i a now)" by simp_all
  show "transactions s' =
           AList.update (transactionId s) (dr_transaction r) (transactions s)"
    unfolding r s' deposit_ok [OF c]
    by (simp add: Let_def createTransaction_transactions updateWalletBalance_other)
  show "transactionId s' = transactionId s + 1"
    unfolding s' deposit_ok [OF c]
    by (simp add: Let_def createTransaction_transactions updateWalletBalance_other)
  have "getWallet s' i = Some (w\<lparr>w_balance := w_balance w + a\<rparr>) \<and>
        dr_wallet r = Some (w\<lparr>w_balance := w_balance w + a\<rparr>) \<and>
        dr_transaction r =
             \<lparr>t_userId = uid, t_fromWalletId = None, t_toWalletId = Some i,
              t_type = ''deposit'', t_amount = a, t_fromCurrency = None,
              t_toCurrency = Some (w_currency w), t_rate = None,
              t_description = ''Added funds to wallet'', t_status = ''completed'',
              t_id = transactionId s, t_createdAt = now\<rparr>"
    unfolding r s' deposit_ok [OF c]
    by (simp add: Let_def createTransaction_entry updateWalletBalance_other
        getWallet_createTransaction getWallet_updateWalletBalance c(2)
        insertTransaction.defs transaction.defs)
  with c show "\<exists>w. getWallet s i = Some w \<and>
           getWallet s' i = Some (w\<lparr>w_balance := w_balance w + a\<rparr>) \<and>
           dr_wallet r = Some (w\<lparr>w_balance := w_balance w + a\<rparr>) \<and>
           dr_transaction r =
             \<lparr>t_userId = uid, t_fromWalletId = None, t_toWalletId = Some i,
              t_type = ''deposit'', t_amount = a, t_fromCurrency = None,
              t_toCurrency = Some (w_currency w), t_rate = None,
              t_description = ''Added funds to wallet'', t_status = ''completed'',
              t_id = transactionId s, t_createdAt = now\<rparr>"
    by blast
qed


lemma handlers_keep_fresh:
  assumes "transactionIdFresh s"
  shows "transactionIdFresh (snd (post_api_transfers s uid f t a d now))"
    and "transactionIdFresh (snd (post_api_conversions s uid f t a now))"
    and "transactionIdFresh (snd (post_api_deposits s uid f a now))"
proof -
  have step: "transactionIdFresh s'"
    if "transactions s' = AList.update (transactionId s) e (transactions s)"
      and "transactionId s' = transactionId s + 1" for s' e
  proof -
    have "list_all (\<lambda>(i, t). i < transactionId s + 1) (transactions s)"
      using assms by (auto simp: transactionIdFresh_def list_all_iff)
    then have "list_all (\<lambda>(i, t). i < transactionId s + 1)
        (AList.update (transactionId s) e (transactions s))"
      by (rule list_all_update) simp
    with that show ?thesis by (simp add: transactionIdFresh_def)
  qed
  show "transactionIdFresh (snd (post_api_transfers s uid f t a d now))"
  proof (cases "fst (post_api_transfers s uid f t a d now)")
    case (Inl e)
    then have "post_api_transfers s uid f t a d now =
        (Inl e, snd (post_api_transfers s uid f t a d now))" by (simp add: prod_eq_iff)
    from transfer_Inl [OF this] assms show ?thesis by simp
  next
    case (Inr r)
    then have "post_api_transfers s uid f t a d now =
        (Inr r, snd (post_api_transfers s uid f t a d now))" by (simp add: prod_eq_iff)
    from transfer_ledger(1,2) [OF this] show ?thesis by (rule step)
  qed
  show "transactionIdFresh (snd (post_api_conversions s uid f t a now))"
  proof (cases "fst (post_api_conversions s uid f t a now)")
    case (Inl e)
    then have "post_api_conversions s uid f t a now =
        (Inl e, snd (post_api_conversions s uid f t a now))" by (simp add: prod_eq_iff)
    from conversion_Inl [OF this] assms show ?thesis by simp
  next
    case (Inr r)
    then have "post_api_conversions s uid f t a now =
        (Inr r, snd (post_api_conversions s uid f t a now))" by (simp add: prod_eq_iff)
    from conversion_ledger(1,2) [OF this] show ?thesis by (rule step)
  qed
  show "transactionIdFresh (snd (post_api_deposits s uid f a now))"
  proof (cases "fst (post_api_deposits s uid f a now)")
    case (Inl e)
    then have "post_api_deposits s uid f a now =
        (Inl e, snd (post_api_deposits s uid f a now))" by (simp add: prod_eq_iff)
    from deposit_Inl [OF this] assms show ?thesis by simp
  next
    case (Inr r)
    then have "post_api_deposits s uid f a now =
        (Inr r, snd (post_api_deposits s uid f a now))" by (simp add: prod_eq_iff)
    from deposit_ledger(1,2) [OF this] show ?thesis by (rule step)
  qed
qed

subsection \<open>Balances after a conversion\<close>


subsection \<open>Balances after a deposit\<close>


subsection \<open>Listing the ledger\<close>

lemma sortByCreatedAtDesc_descending: "createdAtDescending (sortByCreatedAtDesc ts)"
proof -
  have "sorted (map (\<lambda>t. - t_createdAt t) (sort_key (\<lambda>t. - t_createdAt t) ts))"
    by (rule sorted_sort_key)
  then show ?thesis
    by (simp add: createdAtDescending_def sortByCreatedAtDesc_def sorted_wrt_map)
qed

lemma createdAtDescending_take: "createdAtDescending ts \<Longrightarrow> createdAtDescending (take n ts)"
  by (simp add: createdAtDescending_def sorted_wrt_take)

lemma createdAtDescending_slice0: "createdAtDescending ts \<Longrightarrow> createdAtDescending (slice0 ts l)"
  by (simp add: slice0_def createdAtDescending_take)

lemma getTransactions_descending: "createdAtDescending (getTransactions s userId limit)"
  by (simp add: getTransactions_def Let_def sortByCreatedAtDesc_descending
      createdAtDescending_slice0 split: option.splits)

lemma getTransactions_no_limit:
  "mset (getTransactions s userId None) =
     mset (filter (\<lambda>t. t_userId t = userId) (map snd (transactions s)))"
  by (simp add: getTransactions_def sortByCreatedAtDesc_def)

lemma getTransactions_positive_limit:
  assumes "0 < l"
  shows "getTransactions s userId (Some l) = take (nat l) (getTransactions s userId None)"
    and "length (getTransactions s userId (Some l)) \<le> nat l"
  using assms by (simp_all add: getTransactions_def slice0_def)

lemma getTransactions_zero_limit:
  "getTransactions s userId (Some 0) = getTransactions s userId None"
  by (simp add: getTransactions_def)

subsection \<open>Handlers write balances only\<close>

lemma onlyBalancesDiffer_update:
  "onlyBalancesDiffer s s1 \<Longrightarrow> onlyBalancesDiffer s (snd (updateWalletBalance s1 i b))"
  by (erule onlyBalancesDiffer_trans) (rule updateWalletBalance_frame)

lemma onlyBalancesDiffer_createTransaction:
  "onlyBalancesDiffer s s1 \<Longrightarrow> onlyBalancesDiffer s (snd (createTransaction s1 td now))"
  by (simp add: onlyBalancesDiffer_def createTransaction_wallets)

lemma transfer_frame: "onlyBalancesDiffer s (snd (post_api_transfers s uid f t a d now))"
  by (simp add: post_api_transfers_def Let_def split_def onlyBalancesDiffer_refl
      onlyBalancesDiffer_update onlyBalancesDiffer_createTransaction split: option.splits)

lemma conversion_frame: "onlyBalancesDiffer s (snd (post_api_conversions s uid f t a now))"
  by (simp add: post_api_conversions_def Let_def split_def onlyBalancesDiffer_refl
      onlyBalancesDiffer_update onlyBalancesDiffer_createTransaction split: option.splits)

lemma deposit_frame: "onlyBalancesDiffer s (snd (post_api_deposits s uid i a now))"
  by (simp add: post_api_deposits_def Let_def split_def onlyBalancesDiffer_refl
      onlyBalancesDiffer_update onlyBalancesDiffer_createTransaction split: option.splits)

subsection \<open>Every store the server passes through keeps the invariants\<close>

lemma createWallet_invariants:
  "balancesNonNegative s \<Longrightarrow> iw_balance walletData = Some 0 \<Longrightarrow>
   balancesNonNegative (snd (createWallet s walletData now))"
  "transactionIdFresh s \<Longrightarrow> transactionIdFresh (snd (createWallet s walletData now))"
  by (auto simp: balancesNonNegative_def transactionIdFresh_def createWallet_def Let_def
      intro: list_all_update)

lemma reachable_invariants:
  "reachable s \<Longrightarrow> balancesNonNegative s \<and> transactionIdFresh s"
proof (induction rule: reachable.induct)
  case constructed
  show ?case by (simp add: MemStorage_invariants)
next
  case (wallet_created s walletData now)
  then show ?case by (simp add: createWallet_invariants)
next
  case (transferred s uid f t a d now)
  then show ?case by (simp add: transfer_nonneg handlers_keep_fresh)
next
  case (converted s uid f t a now)
  then show ?case by (simp add: conversion_nonneg handlers_keep_fresh)
next
  case (deposited s uid i a now)
  then show ?case by (simp add: deposit_nonneg handlers_keep_fresh)
qed

section \<open>The claims\<close>

text \<open>
  Throughout, a request is one that has passed its schema, that is, its amount is
  positive; schema validation belongs to the request-handling layer, and a request it
  rejects ends with \<open>ValidationError\<close> before any wallet is looked up.
\<close>

subsection \<open>C1: conservation\<close>

text \<open>
  Claim C1. Every successful transfer of an amount between wallets of the same owner and
  currency leaves the sum of the source balance and the destination balance as it was.

  For two different wallets this is \<open>transfer_conservation_distinct\<close> above. The handler
  does not compare the two identifiers, though, and for a transfer from a wallet to
  itself the property fails: account 1 transfers 30 from wallet 1 (USD, balance 50) to
  wallet 1, the request succeeds, and the wallet holds 80. Source and destination are
  that one wallet, so the two balances summed to 100 before and sum to 160 after.
\<close>

theorem self_transfer_breaks_conservation:
  "\<not> isl (fst (post_api_transfers exampleStore 1 1 1 30 None 9000)) \<and>
   map_option w_balance (getWallet exampleStore 1) = Some 50 \<and>
   map_option w_balance
     (getWallet (snd (post_api_transfers exampleStore 1 1 1 30 None 9000)) 1) = Some 80 \<and>
   (80::rat) + 80 \<noteq> 50 + 50"
  by (simp add: eval_defs)

text \<open>
  The request is answered with success, and the balance of the one wallet involved
  went from 50 to 80, so that neither the wallet nor the sum kept its value.
\<close>

theorem self_transfer_breaks_conservation_witness:
  "\<not> isl (fst (post_api_transfers exampleStore 1 1 1 30 None 9000)) \<and>
   map_option w_balance
     (getWallet (snd (post_api_transfers exampleStore 1 1 1 30 None 9000)) 1)
     \<noteq> map_option w_balance (getWallet exampleStore 1)"
  using self_transfer_breaks_conservation by (simp del: map_option_eq_Some)

subsection \<open>C2: non-negativity and failure atomicity\<close>

text \<open>
  Claim C2. No successful transfer, conversion or deposit leaves a wallet balance
  negative: from a store whose balances are all non-negative, each of them leads to
  such a store again, and every store the server passes through is one
  (\<open>reachable_invariants\<close>). And a transfer or conversion whose amount exceeds the
  source balance, every other precondition holding, fails with \<open>InsufficientFunds\<close>
  and returns the store unchanged: both balances as they were, no ledger entry
  written.
\<close>

theorem nonnegativity_and_failure_atomicity:
  "(balancesNonNegative s \<and> post_api_transfers s uid f t a d now = (Inr r1, s1)
      \<longrightarrow> balancesNonNegative s1) \<and>
   (balancesNonNegative s \<and> post_api_conversions s uid f t a now = (Inr r2, s2)
      \<longrightarrow> balancesNonNegative s2) \<and>
   (balancesNonNegative s \<and> post_api_deposits s uid f a now = (Inr r3, s3)
      \<longrightarrow> balancesNonNegative s3) \<and>
   (0 < a \<and> getWallet s f = Some fw \<and> getWallet s t = Some tw \<and>
    w_userId fw = uid \<and> w_userId tw = uid \<and> w_balance fw < a \<longrightarrow>
      (w_currency fw = w_currency tw \<longrightarrow>
         post_api_transfers s uid f t a d now = (Inl InsufficientFunds, s)) \<and>
      post_api_conversions s uid f t a now = (Inl InsufficientFunds, s))"
proof (intro conjI impI)
  assume "balancesNonNegative s \<and> post_api_transfers s uid f t a d now = (Inr r1, s1)"
  then show "balancesNonNegative s1"
    using transfer_nonneg [of s uid f t a d now] by simp
next
  assume "balancesNonNegative s \<and> post_api_conversions s uid f t a now = (Inr r2, s2)"
  then show "balancesNonNegative s2"
    using conversion_nonneg [of s uid f t a now] by simp
next
  assume "balancesNonNegative s \<and> post_api_deposits s uid f a now = (Inr r3, s3)"
  then show "balancesNonNegative s3"
    using deposit_nonneg [of s uid f a now] by simp
next
  assume "0 < a \<and> getWallet s f = Some fw \<and> getWallet s t = Some tw \<and>
    w_userId fw = uid \<and> w_userId tw = uid \<and> w_balance fw < a"
    and "w_currency fw = w_currency tw"
  then show "post_api_transfers s uid f t a d now = (Inl InsufficientFunds, s)"
    by (simp add: post_api_transfers_def transferFundsSchema_def)
next
  assume "0 < a \<and> getWallet s f = Some fw \<and> getWallet s t = Some tw \<and>
    w_userId fw = uid \<and> w_userId tw = uid \<and> w_balance fw < a"
  then show "post_api_conversions s uid f t a now = (Inl InsufficientFunds, s)"
    by (simp add: post_api_conversions_def convertCurrencySchema_def)
qed

text \<open>
  On the example store a transfer of 30 between the USD wallets, a conversion of 30
  from USD to EUR and a deposit of 30 succeed and leave every balance non-negative,
  while a transfer and a conversion of 60 out of wallet 1, which holds 50, are refused.
  On the small store a transfer of 30 out of the wallet holding 10 is refused.
\<close>

theorem nonnegativity_and_failure_atomicity_witness:
  "balancesNonNegative exampleStore \<and>
   \<not> isl (fst (post_api_transfers exampleStore 1 1 2 30 None 9000)) \<and>
   balancesNonNegative (snd (post_api_transfers exampleStore 1 1 2 30 None 9000)) \<and>
   \<not> isl (fst (post_api_conversions exampleStore 1 1 3 30 9000)) \<and>
   balancesNonNegative (snd (post_api_conversions exampleStore 1 1 3 30 9000)) \<and>
   \<not> isl (fst (post_api_deposits exampleStore 1 1 30 9000)) \<and>
   balancesNonNegative (snd (post_api_deposits exampleStore 1 1 30 9000)) \<and>
   post_api_transfers exampleStore 1 1 2 60 None 9000 = (Inl InsufficientFunds, exampleStore) \<and>
   post_api_conversions exampleStore 1 1 3 60 9000 = (Inl InsufficientFunds, exampleStore) \<and>
   post_api_transfers smallStore 1 1 2 30 None 9000 = (Inl InsufficientFunds, smallStore)"
proof -
  let ?T = "post_api_transfers exampleStore 1 1 2 30 None 9000"
  let ?C = "post_api_conversions exampleStore 1 1 3 30 9000"
  let ?D = "post_api_deposits exampleStore 1 1 30 9000"
  have ok: "balancesNonNegative exampleStore"
    by (simp add: balancesNonNegative_def exampleStore_def)
  have T: "?T = (Inr (projr (fst ?T)), snd ?T)" "\<not> isl (fst ?T)"
    by (simp_all add: eval_defs)
  have C: "?C = (Inr (projr (fst ?C)), snd ?C)" "\<not> isl (fst ?C)"
    by (simp_all add: eval_defs)
  have D: "?D = (Inr (projr (fst ?D)), snd ?D)" "\<not> isl (fst ?D)"
    by (simp_all add: eval_defs)
  have w: "getWallet exampleStore 1 = Some (the (getWallet exampleStore 1))"
    "getWallet exampleStore 2 = Some (the (getWallet exampleStore 2))"
    "getWallet exampleStore 3 = Some (the (getWallet exampleStore 3))"
    by (simp_all add: getWallet_def exampleStore_def)
  have "balancesNonNegative (snd ?T)"
    using nonnegativity_and_failure_atomicity
      [of exampleStore 1 1 2 30 None 9000 "projr (fst ?T)" "snd ?T"] ok T(1) by blast
  moreover have "balancesNonNegative (snd ?C)"
    using nonnegativity_and_failure_atomicity
      [of exampleStore 1 1 3 30 _ 9000 _ _ "projr (fst ?C)" "snd ?C"] ok C(1) by blast
  moreover have "balancesNonNegative (snd ?D)"
    using nonnegativity_and_failure_atomicity
      [of exampleStore 1 1 _ 30 _ 9000 _ _ _ _ "projr (fst ?D)" "snd ?D"] ok D(1) by blast
  moreover have "post_api_transfers exampleStore 1 1 2 60 None 9000 = (Inl InsufficientFunds, exampleStore)"
    using nonnegativity_and_failure_atomicity
      [of exampleStore 1 1 2 60 None 9000 _ _ _ _ _ _
        "the (getWallet exampleStore 1)" "the (getWallet exampleStore 2)"] w
    by (simp add: getWallet_def exampleStore_def)
  moreover have "post_api_conversions exampleStore 1 1 3 60 9000 = (Inl InsufficientFunds, exampleStore)"
    using nonnegativity_and_failure_atomicity
      [of exampleStore 1 1 3 60 _ 9000 _ _ _ _ _ _
        "the (getWallet exampleStore 1)" "the (getWallet exampleStore 3)"] w
    by (simp add: getWallet_def exampleStore_def)
  moreover have "post_api_transfers smallStore 1 1 2 30 None 9000 = (Inl InsufficientFunds, smallStore)"
    using nonnegativity_and_failure_atomicity
      [of smallStore 1 1 2 30 None 9000 _ _ _ _ _ _
        "the (getWallet smallStore 1)" "the (getWallet smallStore 2)"]
    by (simp add: getWallet_def smallStore_def)
  ultimately show ?thesis using ok T(2) C(2) D(2) by simp
qed

subsection \<open>C3: ownership enforcement\<close>

text \<open>
  Claim C3, as stated: whenever some referenced wallet exists but is not owned by the
  acting account, a transfer, conversion or deposit fails with \<open>Forbidden\<close> and changes
  nothing. The handlers test existence of both wallets before ownership of either, so
  this fails when the other referenced wallet does not exist: account 1 names wallet 4,
  which belongs to account 2, as the source and the absent wallet 99 as the destination,
  and the answer is \<open>NotFound\<close>.
\<close>

theorem foreign_wallet_with_missing_wallet_is_not_found:
  "map_option w_userId (getWallet exampleStore 4) = Some 2 \<and>
   post_api_transfers exampleStore 1 4 99 30 None 9000 = (Inl NotFound, exampleStore) \<and>
   post_api_conversions exampleStore 1 4 99 30 9000 = (Inl NotFound, exampleStore)"
  by (simp add: eval_defs)

text \<open>
  Claim C3, amended. When every referenced wallet exists and some referenced wallet is
  not owned by the acting account, a transfer, conversion or deposit fails with
  \<open>Forbidden\<close> and returns the store unchanged (no balance changed, no ledger entry
  appended), whatever the positive amount and the balances. A transfer or conversion
  that names an absent wallet fails with \<open>NotFound\<close> instead, whoever owns the other
  wallet, and equally returns the store unchanged.
\<close>

theorem ownership_enforcement:
  "0 < a \<Longrightarrow>
   (getWallet s f = Some fw \<and> getWallet s t = Some tw \<and>
    (w_userId fw \<noteq> uid \<or> w_userId tw \<noteq> uid) \<longrightarrow>
      post_api_transfers s uid f t a d now = (Inl Forbidden, s) \<and>
      post_api_conversions s uid f t a now = (Inl Forbidden, s)) \<and>
   (getWallet s f = Some fw \<and> w_userId fw \<noteq> uid \<longrightarrow>
      post_api_deposits s uid f a now = (Inl Forbidden, s)) \<and>
   (getWallet s f = None \<or> getWallet s t = None \<longrightarrow>
      post_api_transfers s uid f t a d now = (Inl NotFound, s) \<and>
      post_api_conversions s uid f t a now = (Inl NotFound, s))"
  by (auto simp: post_api_transfers_def post_api_conversions_def post_api_deposits_def
      transferFundsSchema_def convertCurrencySchema_def addFundsSchema_def
      split: option.splits)

text \<open>
  Account 1 names wallet 4 of account 2 as source, as destination, in a conversion and
  in a deposit; and next to the absent wallet 99.
\<close>

theorem ownership_enforcement_witness:
  "post_api_transfers exampleStore 1 4 2 30 None 9000 = (Inl Forbidden, exampleStore) \<and>
   post_api_transfers exampleStore 1 1 4 30 None 9000 = (Inl Forbidden, exampleStore) \<and>
   post_api_conversions exampleStore 1 4 3 30 9000 = (Inl Forbidden, exampleStore) \<and>
   post_api_deposits exampleStore 1 4 30 9000 = (Inl Forbidden, exampleStore) \<and>
   post_api_transfers exampleStore 1 4 99 30 None 9000 = (Inl NotFound, exampleStore)"
  using
    ownership_enforcement [of 30 exampleStore 4 "the (getWallet exampleStore 4)" 2
      "the (getWallet exampleStore 2)" 1 None 9000]
    ownership_enforcement [of 30 exampleStore 1 "the (getWallet exampleStore 1)" 4
      "the (getWallet exampleStore 4)" 1 None 9000]
    ownership_enforcement [of 30 exampleStore 4 "the (getWallet exampleStore 4)" 3
      "the (getWallet exampleStore 3)" 1 None 9000]
    ownership_enforcement [of 30 exampleStore 4 "the (getWallet exampleStore 4)" 99
      "the (getWallet exampleStore 4)" 1 None 9000]
  by (simp add: getWallet_def exampleStore_def)

subsection \<open>C4: ledger completeness\<close>



subsection \<open>C5: validation order of a transfer\<close>

text \<open>
  Claim C5. For every transfer request the failure is chosen by the first check that
  fails, in this order: if either wallet does not exist the result is \<open>NotFound\<close>;
  otherwise, if either wallet is not owned by the acting account, \<open>Forbidden\<close>;
  otherwise, if the two currencies differ, \<open>InvalidOperation\<close>; otherwise, if the
  source balance is below the amount, \<open>InsufficientFunds\<close>; otherwise the transfer
  succeeds. Every failure hands the store back unchanged.
\<close>

theorem transfer_validation_order:
  "0 < a \<Longrightarrow>
   (getWallet s f = None \<or> getWallet s t = None \<longrightarrow>
      post_api_transfers s uid f t a d now = (Inl NotFound, s)) \<and>
   (getWallet s f = Some fw \<and> getWallet s t = Some tw \<longrightarrow>
      (if w_userId fw \<noteq> uid \<or> w_userId tw \<noteq> uid
       then post_api_transfers s uid f t a d now = (Inl Forbidden, s)
       else if w_currency fw \<noteq> w_currency tw
       then post_api_transfers s uid f t a d now = (Inl InvalidOperation, s)
       else if w_balance fw < a
       then post_api_transfers s uid f t a d now = (Inl InsufficientFunds, s)
       else \<exists>r s'. post_api_transfers s uid f t a d now = (Inr r, s')))"
  by (auto simp: post_api_transfers_def transferFundsSchema_def Let_def split_def
      split: option.splits)

text \<open>One request of account 1 for each of the five outcomes.\<close>

theorem transfer_validation_order_witness:
  "post_api_transfers exampleStore 1 1 99 30 None 9000 = (Inl NotFound, exampleStore) \<and>
   post_api_transfers exampleStore 1 1 4 30 None 9000 = (Inl Forbidden, exampleStore) \<and>
   post_api_transfers exampleStore 1 1 3 30 None 9000 = (Inl InvalidOperation, exampleStore) \<and>
   post_api_transfers exampleStore 1 1 2 60 None 9000 = (Inl InsufficientFunds, exampleStore) \<and>
   (\<exists>r s'. post_api_transfers exampleStore 1 1 2 30 None 9000 = (Inr r, s'))"
  using
    transfer_validation_order [of 30 exampleStore 1 99 1 None 9000]
    transfer_validation_order [of 30 exampleStore 1 4 1 None 9000
      "the (getWallet exampleStore 1)" "the (getWallet exampleStore 4)"]
    transfer_validation_order [of 30 exampleStore 1 3 1 None 9000
      "the (getWallet exampleStore 1)" "the (getWallet exampleStore 3)"]
    transfer_validation_order [of 60 exampleStore 1 2 1 None 9000
      "the (getWallet exampleStore 1)" "the (getWallet exampleStore 2)"]
    transfer_validation_order [of 30 exampleStore 1 2 1 None 9000
      "the (getWallet exampleStore 1)" "the (getWallet exampleStore 2)"]
  by (simp add: getWallet_def exampleStore_def)

subsection \<open>C6: rate availability\<close>

text \<open>
  Claim C6. For a conversion between two existing wallets of the acting account, with
  enough in the source wallet, the answer is \<open>InvalidOperation\<close> (no exchange rate)
  exactly when the ordered pair of source and destination currency lies outside the
  table, and the table holds exactly the nine pairs over USD, EUR and GBP
  (\<open>lookupRate_table\<close>). For every pair inside, the conversion succeeds; a pair of
  equal currencies converts at rate 1.
\<close>

theorem rate_availability:
  assumes "0 < a" "getWallet s f = Some fw" "getWallet s t = Some tw"
    "w_userId fw = uid" "w_userId tw = uid" "a \<le> w_balance fw"
  shows
    "(post_api_conversions s uid f t a now = (Inl InvalidOperation, s) \<longleftrightarrow>
        \<not> (w_currency fw \<in> {USD, EUR, GBP} \<and> w_currency tw \<in> {USD, EUR, GBP})) \<and>
     ((\<exists>r s'. post_api_conversions s uid f t a now = (Inr r, s')) \<longleftrightarrow>
        w_currency fw \<in> {USD, EUR, GBP} \<and> w_currency tw \<in> {USD, EUR, GBP}) \<and>
     (w_currency fw \<in> {USD, EUR, GBP} \<and> w_currency tw = w_currency fw \<longrightarrow>
        (\<exists>r s'. post_api_conversions s uid f t a now = (Inr r, s') \<and>
                 cr_rate r = 1 \<and> cr_convertedAmount r = a))"
proof (cases "lookupRate (w_currency fw) (w_currency tw)")
  case None
  then have out: "\<not> (w_currency fw \<in> {USD, EUR, GBP} \<and> w_currency tw \<in> {USD, EUR, GBP})"
    using lookupRate_table [of "w_currency fw" "w_currency tw"] by simp
  have "post_api_conversions s uid f t a now = (Inl InvalidOperation, s)"
    using assms None by (simp add: post_api_conversions_def convertCurrencySchema_def)
  with out show ?thesis
    using lookupRate_identity [of "w_currency fw"] None by auto
next
  case (Some rate)
  then have inside: "w_currency fw \<in> {USD, EUR, GBP} \<and> w_currency tw \<in> {USD, EUR, GBP}"
    using lookupRate_table [of "w_currency fw" "w_currency tw"] by simp
  note ok = conversion_ok [OF assms Some]
  have one: "rate = 1" if "w_currency tw = w_currency fw"
    using that Some inside lookupRate_identity [of "w_currency fw"] by simp
  from inside one show ?thesis
    unfolding ok by (simp add: Let_def)
qed

text \<open>
  Account 1 converts 30 from its USD wallet 1 into its EUR wallet 3 (succeeds), its
  JPY wallet 5 (no rate) and its USD wallet 2 (rate 1).
\<close>

theorem rate_availability_witness:
  "(\<exists>r s'. post_api_conversions exampleStore 1 1 3 30 9000 = (Inr r, s')) \<and>
   post_api_conversions exampleStore 1 1 5 30 9000 = (Inl InvalidOperation, exampleStore) \<and>
   (\<exists>r s'. post_api_conversions exampleStore 1 1 2 30 9000 = (Inr r, s') \<and>
            cr_rate r = 1 \<and> cr_convertedAmount r = 30)"
proof -
  have w: "getWallet exampleStore 1 = Some (the (getWallet exampleStore 1))"
    "getWallet exampleStore 2 = Some (the (getWallet exampleStore 2))"
    "getWallet exampleStore 3 = Some (the (getWallet exampleStore 3))"
    "getWallet exampleStore 5 = Some (the (getWallet exampleStore 5))"
    by (simp_all add: getWallet_def exampleStore_def)
  have o: "w_userId (the (getWallet exampleStore 1)) = 1"
    "w_userId (the (getWallet exampleStore 2)) = 1"
    "w_userId (the (getWallet exampleStore 3)) = 1"
    "w_userId (the (getWallet exampleStore 5)) = 1"
    "30 \<le> w_balance (the (getWallet exampleStore 1))"
    by (simp_all add: getWallet_def exampleStore_def)
  have c: "w_currency (the (getWallet exampleStore 1)) = USD"
    "w_currency (the (getWallet exampleStore 2)) = USD"
    "w_currency (the (getWallet exampleStore 3)) = EUR"
    "w_currency (the (getWallet exampleStore 5)) = JPY"
    by (simp_all add: getWallet_def exampleStore_def)
  have pos: "(0::rat) < 30" by simp
  show ?thesis
    using rate_availability [OF pos w(1) w(3) o(1) o(3) o(5), of 9000]
      rate_availability [OF pos w(1) w(4) o(1) o(4) o(5), of 9000]
      rate_availability [OF pos w(1) w(2) o(1) o(2) o(5), of 9000]
    by (simp add: c)
qed

subsection \<open>C7: rate determinism and conversion arithmetic\<close>

text \<open>
  Claim C7 says that the converted amount is the amount times the rate and that a
  conversion of 100 from USD to EUR moves the source balance by exactly 100.00 and the
  destination balance by exactly 91.50. The handler computes
  \<^verbatim>\<open>amount * rate\<close>, \<^verbatim>\<open>Number(fromWallet.balance) - amount\<close> and
  \<^verbatim>\<open>Number(toWallet.balance) + convertedAmount\<close> in IEEE doubles, where each
  operation rounds; amounts here are exact rationals, over which the three expressions
  are exact whatever the operands. Exactness is therefore a fact about the rounding of
  doubles, which this embedding does not represent, and no theorem over the rationals
  is put forward for it. What does not depend on rounding is in \<open>conversion_ledger\<close>
  and \<open>conversion_balances\<close>: the rate applied is the entry of the table for the two
  currencies, and the balances written are the values of those three expressions.
\<close>

subsection \<open>C8: listing order and truncation\<close>

text \<open>
  Claim C8. The ledger entries of an account are listed from the latest creation time to
  the earliest; whenever a limit is given, a limit of 0 included, at most that many
  entries are returned; without a limit all entries of the account are returned.

  The order holds for every limit (\<open>getTransactions_descending\<close>), a positive limit
  \<open>l\<close> returns the first \<open>l\<close> entries of the full listing
  (\<open>getTransactions_positive_limit\<close>), and no limit returns every entry of the account
  (\<open>getTransactions_no_limit\<close>). A limit of 0, however, is falsy in the test
  \<^verbatim>\<open>limit ? ... : ...\<close> and takes the branch of the absent limit: with three entries
  of account 1 in the ledger, a listing with limit 0 returns all three.
\<close>

theorem limit_zero_lists_everything:
  "getTransactions exampleLedger 1 (Some 0) =
     [depositEntry 4 1 4000, depositEntry 3 1 3000, depositEntry 1 1 1000] \<and>
   \<not> length (getTransactions exampleLedger 1 (Some 0)) \<le> 0"
  by (simp add: getTransactions_def sortByCreatedAtDesc_def exampleLedger_def depositEntry_def)

text \<open>The listing with limit 0 has three entries.\<close>

theorem limit_zero_lists_everything_witness:
  "length (getTransactions exampleLedger 1 (Some 0)) = 3"
  using limit_zero_lists_everything by simp

subsection \<open>C9: only the balance of a wallet changes\<close>

text \<open>
  Claim C9. Across a balance update, a transfer, a conversion and a deposit, whatever
  their outcome, every wallet identifier that had no wallet has none afterwards, and
  every wallet keeps its identifier, owning account, name, currency, primary flag and
  creation time: at most the balance differs. (\<open>rel_option\<close> relates absent with
  absent and a wallet with a wallet that \<open>sameButBalance\<close> relates to it.)
\<close>

theorem wallet_frame:
  "rel_option sameButBalance (getWallet s j) (getWallet (snd (updateWalletBalance s i b)) j) \<and>
   rel_option sameButBalance (getWallet s j)
     (getWallet (snd (post_api_transfers s uid f t a d now)) j) \<and>
   rel_option sameButBalance (getWallet s j)
     (getWallet (snd (post_api_conversions s uid f t a now)) j) \<and>
   rel_option sameButBalance (getWallet s j)
     (getWallet (snd (post_api_deposits s uid i a now)) j)"
  by (intro conjI onlyBalancesDiffer_getWallet updateWalletBalance_frame transfer_frame
      conversion_frame deposit_frame)

text \<open>
  On the example store the USD wallet 1 stays a USD wallet of account 1 across a
  balance update, a transfer and a deposit, the EUR wallet 3 stays a EUR wallet across
  a conversion into it, and the absent wallet 99 stays absent.
\<close>

theorem wallet_frame_witness:
  "map_option w_currency (getWallet exampleStore 1) = Some USD \<and>
   map_option w_currency (getWallet (snd (updateWalletBalance exampleStore 1 7)) 1) = Some USD \<and>
   map_option w_currency
     (getWallet (snd (post_api_transfers exampleStore 1 1 2 30 None 9000)) 1) = Some USD \<and>
   map_option w_currency
     (getWallet (snd (post_api_conversions exampleStore 1 1 3 30 9000)) 3) = Some EUR \<and>
   map_option w_userId
     (getWallet (snd (post_api_deposits exampleStore 1 1 30 9000)) 1) = Some 1 \<and>
   getWallet (snd (post_api_deposits exampleStore 1 1 30 9000)) 99 = None"
proof -
  have g: "getWallet exampleStore 1 =
      Some \<lparr>w_id = 1, w_userId = 1, w_name = Some ''Primary'', w_currency = USD,
              w_balance = 50, w_isPrimary = True, w_createdAt = 1000\<rparr>"
    "getWallet exampleStore 3 =
      Some \<lparr>w_id = 3, w_userId = 1, w_name = Some ''EUR'', w_currency = EUR,
              w_balance = 0, w_isPrimary = False, w_createdAt = 3000\<rparr>"
    "getWallet exampleStore 99 = None"
    by (simp_all add: getWallet_def exampleStore_def)
  show ?thesis
    using wallet_frame [of exampleStore 1 1 7 1 1 2 30 None 9000]
      wallet_frame [of exampleStore 3 1 7 1 1 3 30 None 9000]
      wallet_frame [of exampleStore 99 1 30 1 1 3 30 None 9000]
    by (auto simp: g option_rel_Some1 sameButBalance_def)
qed

subsection \<open>C10: a transfer from a wallet to itself\<close>

text \<open>
  Claim C10, as stated: whenever the source and the destination identifier of a transfer
  are the same and the wallet holds at least the amount, the transfer succeeds and the
  wallet ends with its initial balance plus the amount. The ownership check comes
  first, so this fails for a wallet of another account: account 1 names wallet 4, which
  belongs to account 2 and holds 5, as source and destination of a transfer of 3, and
  the answer is \<open>Forbidden\<close>, the store unchanged.
\<close>

theorem foreign_self_transfer_is_forbidden:
  "map_option w_userId (getWallet exampleStore 4) = Some 2 \<and>
   map_option w_balance (getWallet exampleStore 4) = Some 5 \<and>
   post_api_transfers exampleStore 1 4 4 3 None 9000 = (Inl Forbidden, exampleStore)"
  by (simp add: eval_defs)

text \<open>
  Claim C10, amended. When the source and the destination identifier of a transfer are
  the same wallet, that wallet is owned by the acting account and holds at least the
  amount, the transfer succeeds and the wallet ends with its initial balance plus the
  amount. Both new balances are computed from the balances read before any write, and
  the second write (initial balance + amount) replaces the first (initial balance -
  amount): the wallet map is left exactly as a single write of initial balance + amount
  leaves it. When the wallet is not owned by the acting account, the transfer fails
  with \<open>Forbidden\<close> and changes nothing.
\<close>

theorem self_transfer_overwrite:
  assumes "0 < a" "getWallet s w = Some x" "a \<le> w_balance x"
  shows "(w_userId x = uid \<longrightarrow>
           (\<exists>r s'. post_api_transfers s uid w w a d now = (Inr r, s') \<and>
              getWallet s' w = Some (x\<lparr>w_balance := w_balance x + a\<rparr>) \<and>
              wallets s' = wallets (snd (updateWalletBalance s w (w_balance x + a))))) \<and>
         (w_userId x \<noteq> uid \<longrightarrow>
            post_api_transfers s uid w w a d now = (Inl Forbidden, s))"
proof (intro conjI impI)
  assume own: "w_userId x = uid"
  have twice: "wallets (snd (updateWalletBalance (snd (updateWalletBalance s w (w_balance x - a)))
                  w (w_balance x + a)))
        = wallets (snd (updateWalletBalance s w (w_balance x + a)))"
    using assms(2)
    by (simp add: updateWalletBalance_def getWallet_def Let_def update_conv')
  show "\<exists>r s'. post_api_transfers s uid w w a d now = (Inr r, s') \<and>
           getWallet s' w = Some (x\<lparr>w_balance := w_balance x + a\<rparr>) \<and>
           wallets s' = wallets (snd (updateWalletBalance s w (w_balance x + a)))"
    using assms own twice
    by (simp add: transfer_ok [OF assms(1,2,2) own own refl assms(3)] Let_def
        getWallet_createTransaction getWallet_updateWalletBalance createTransaction_wallets)
next
  assume "w_userId x \<noteq> uid"
  with assms show "post_api_transfers s uid w w a d now = (Inl Forbidden, s)"
    by (simp add: post_api_transfers_def transferFundsSchema_def)
qed

text \<open>
  Account 1 transfers 30 from its wallet 1 (balance 50) to wallet 1: the balance is 80.
  Account 1 transfers 3 from wallet 4 of account 2 to wallet 4: refused.
\<close>

theorem self_transfer_overwrite_witness:
  "(\<exists>r s'. post_api_transfers exampleStore 1 1 1 30 None 9000 = (Inr r, s') \<and>
      map_option w_balance (getWallet s' 1) = Some 80) \<and>
   post_api_transfers exampleStore 1 4 4 3 None 9000 = (Inl Forbidden, exampleStore)"
  using
    self_transfer_overwrite [of 30 exampleStore 1 "the (getWallet exampleStore 1)" 1 None 9000]
    self_transfer_overwrite [of 3 exampleStore 4 "the (getWallet exampleStore 4)" 1 None 9000]
  by (auto simp: getWallet_def exampleStore_def)

end
